theory Spec2Isabelle
  imports Main "HOL-Library.Sublist"
begin

section \<open>Values and records read from JSON\<close>

text \<open>
  The deployment registrar of \<^verbatim>\<open>contracts/script/post_deploy.py\<close> works on parsed
  JSON. A field the script reads with \<^verbatim>\<open>d[k]\<close> is required by the interface and is a
  plain record field here; a field it reads with \<^verbatim>\<open>d.get(k)\<close> may be absent, so it is
  an option (\<open>None\<close>: the key is absent) of a JSON value that is \<^verbatim>\<open>null\<close> or a
  string.
\<close>

datatype pyval = PyNone | PyStr string

definition dict_get :: "pyval option \<Rightarrow> pyval" where
  \<comment> \<open>\<^verbatim>\<open>d.get(k)\<close>: an absent key reads as \<^verbatim>\<open>None\<close>\<close>
  "dict_get v = (case v of None \<Rightarrow> PyNone | Some x \<Rightarrow> x)"

definition dict_get_default :: "pyval option \<Rightarrow> pyval \<Rightarrow> pyval" where
  \<comment> \<open>\<^verbatim>\<open>d.get(k, default)\<close>\<close>
  "dict_get_default v dflt = (case v of None \<Rightarrow> dflt | Some x \<Rightarrow> x)"

definition truthy :: "pyval \<Rightarrow> bool" where
  \<comment> \<open>Python truth value: \<^verbatim>\<open>None\<close> and the empty string are false\<close>
  "truthy v = (case v of PyNone \<Rightarrow> False | PyStr s \<Rightarrow> s \<noteq> [])"

definition py_str :: "pyval \<Rightarrow> string" where
  \<comment> \<open>how an f-string formats the value\<close>
  "py_str v = (case v of PyNone \<Rightarrow> ''None'' | PyStr s \<Rightarrow> s)"

record network_config =
  network_name :: string
  display_name :: string
  default_deployer :: "pyval option"

record contract_mapping =
  m_id :: int
  m_solidity_name :: string
  m_db_name :: string

record deploy_config =
  network :: network_config
  mappings :: "contract_mapping list"

record tx =
  transactionType :: "pyval option"
  contractName :: "pyval option"
  contractAddress :: "pyval option"
  hash :: "pyval option"

record broadcast =
  transactions :: "tx list option"

record deployment =
  solidity_name :: pyval
  db_name :: string
  mapping_id :: int
  address :: pyval
  tx_hash :: pyval

record payload =
  p_chain_id :: int
  p_contract_mapping_id :: int
  p_address :: pyval
  p_deployment_tx_hash :: pyval
  p_deployed_by :: "pyval option"

section \<open>Exceptions, effects and the outside world\<close>

text \<open>
  An exception of the \<^verbatim>\<open>requests\<close> library is known to the script only through the
  classes its handlers test, so it carries one flag per class and its message.
\<close>

record req_exc =
  is_connection_error :: bool
  is_timeout :: bool
  exc_str :: string

datatype py_exc =
    RuntimeError string
  | FileNotFoundError string
  | KeyError string
  | JSONDecodeError
  | OSError string
  | RequestException req_exc

record api_body =
  success :: "bool option"
  data :: "deploy_config option"
  error :: "pyval option"

record response =
  ok :: bool
  status_code :: int
  resp_text :: string
  resp_json :: "api_body option"

datatype http_result = Raises req_exc | Responds response

type_synonym headers = "(string \<times> string) list"

datatype path = ScriptDir | Parent path | Join path string

datatype event =
    Print string
  | HttpGet string headers
  | FsExists string
  | FsOpen string
  | HttpPost string headers payload

text \<open>
  The world answers every request of a run: the GET by its URL, the \<open>k\<close>-th POST of the
  run by its number and payload, and the file system by the resolved path.
\<close>

record world =
  http_get :: "string \<Rightarrow> headers \<Rightarrow> http_result"
  http_post :: "nat \<Rightarrow> string \<Rightarrow> headers \<Rightarrow> payload \<Rightarrow> http_result"
  path_resolve :: "path \<Rightarrow> string"
  path_exists :: "string \<Rightarrow> bool"
  open_json :: "string \<Rightarrow> py_exc + broadcast"

type_synonym 'a io = "(py_exc + 'a) \<times> event list"

section \<open>Formatting\<close>

definition digit_char :: "nat \<Rightarrow> char" where
  \<comment> \<open>the decimal digit of \<open>d < 10\<close>\<close>
  "digit_char d = ''0123456789'' ! d"

fun str_nat :: "nat \<Rightarrow> string" where
  "str_nat n = (if n < 10 then [digit_char n] else str_nat (n div 10) @ [digit_char (n mod 10)])"

definition str_int :: "int \<Rightarrow> string" where
  "str_int i = (if i < 0 then CHR ''-'' # str_nat (nat (- i)) else str_nat (nat i))"

definition rstrip_slash :: "string \<Rightarrow> string" where
  \<comment> \<open>\<^verbatim>\<open>s.rstrip('/')\<close>\<close>
  "rstrip_slash s = rev (dropWhile (\<lambda>c. c = CHR ''/'') (rev s))"

definition py_join :: "string \<Rightarrow> string list \<Rightarrow> string" where
  \<comment> \<open>\<^verbatim>\<open>sep.join(xs)\<close>\<close>
  "py_join sep xs = (case xs of [] \<Rightarrow> [] | y # ys \<Rightarrow> y @ concat (map (\<lambda>z. sep @ z) ys))"

section \<open>The registrar\<close>

record registrar =
  api_url :: string
  reg_headers :: headers
  config :: "deploy_config option"

definition init :: "string \<Rightarrow> string option \<Rightarrow> registrar" where
  "init url key =
     \<lparr> api_url = rstrip_slash url,
       reg_headers = [(''Content-Type'', ''application/json'')] @
         (case key of Some k \<Rightarrow> (if k \<noteq> [] then [(''X-API-Key'', k)] else []) | None \<Rightarrow> []),
       config = None \<rparr>"

subsection \<open>extract_deployments\<close>

text \<open>
  The dict comprehension stores the mappings one after the other under their
  \<^verbatim>\<open>solidity_name\<close>: a later mapping of the same name replaces an earlier one.
\<close>

fun build_dict ::
  "contract_mapping list \<Rightarrow> (string \<rightharpoonup> contract_mapping) \<Rightarrow> (string \<rightharpoonup> contract_mapping)" where
  "build_dict [] d = d"
| "build_dict (m # ms) d = build_dict ms (d(m_solidity_name m \<mapsto> m))"

definition solidity_to_mapping :: "contract_mapping list \<Rightarrow> (string \<rightharpoonup> contract_mapping)" where
  "solidity_to_mapping ms = build_dict ms Map.empty"

definition dict_lookup :: "(string \<rightharpoonup> 'a) \<Rightarrow> pyval \<Rightarrow> 'a option" where
  \<comment> \<open>\<^verbatim>\<open>k in d\<close> and \<^verbatim>\<open>d[k]\<close> for a dict with string keys: \<^verbatim>\<open>None\<close> is no key\<close>
  "dict_lookup d k = (case k of PyNone \<Rightarrow> None | PyStr s \<Rightarrow> d s)"

definition skip_message :: "pyval \<Rightarrow> string" where
  "skip_message n = ''  Skipping '' @ py_str n @ '': not in contract_mappings table''"

fun extract_loop ::
  "(string \<rightharpoonup> contract_mapping) \<Rightarrow> tx list \<Rightarrow> deployment list \<times> event list
     \<Rightarrow> deployment list \<times> event list" where
  "extract_loop d [] (deployments, out) = (deployments, out)"
| "extract_loop d (t # ts) (deployments, out) =
     (if dict_get (transactionType t) = PyStr ''CREATE'' then
        (let name = dict_get (contractName t) in
         case dict_lookup d name of
           Some mapping \<Rightarrow>
             extract_loop d ts
               (deployments @
                  [\<lparr> solidity_name = name,
                     db_name = m_db_name mapping,
                     mapping_id = m_id mapping,
                     address = dict_get (contractAddress t),
                     tx_hash = dict_get (hash t) \<rparr>],
                out)
         | None \<Rightarrow> extract_loop d ts (deployments, out @ [Print (skip_message name)]))
      else extract_loop d ts (deployments, out))"

definition get_transactions :: "broadcast \<Rightarrow> tx list" where
  \<comment> \<open>\<^verbatim>\<open>broadcast.get("transactions", [])\<close>\<close>
  "get_transactions b = (case transactions b of None \<Rightarrow> [] | Some ts \<Rightarrow> ts)"

definition extract_deployments :: "registrar \<Rightarrow> broadcast \<Rightarrow> deployment list io" where
  "extract_deployments self b =
     (case config self of
        None \<Rightarrow> (Inl (RuntimeError ''Config not loaded. Call fetch_config() first.''), [])
      | Some cfg \<Rightarrow>
          (let d = solidity_to_mapping (mappings cfg);
               (deployments, out) = extract_loop d (get_transactions b) ([], [])
           in (Inr deployments, out)))"

subsection \<open>fetch_config\<close>

text \<open>
  The handlers of the GET are tried in the order of the source: an exception of class
  \<^verbatim>\<open>ConnectionError\<close> takes the first, one of class \<^verbatim>\<open>Timeout\<close> that is not a
  \<^verbatim>\<open>ConnectionError\<close> the second, any other leaves the method as it is. The third
  component of the result is the registrar after the call: only a successful fetch
  stores the configuration.
\<close>

definition connect_error_message :: "string \<Rightarrow> string" where
  "connect_error_message base = ''Cannot connect to API at '' @ base @ ''. Is the backend running?''"

definition timeout_message :: "string \<Rightarrow> string" where
  "timeout_message url = ''API request timed out: '' @ url"

definition status_message :: "int \<Rightarrow> string \<Rightarrow> string" where
  "status_message code body = ''Failed to fetch config: '' @ str_int code @ '' - '' @ body"

definition api_error_message :: "pyval \<Rightarrow> string" where
  "api_error_message err = ''API error: '' @ py_str err"

definition fetch_config ::
  "registrar \<Rightarrow> world \<Rightarrow> int \<Rightarrow> (py_exc + deploy_config) \<times> registrar \<times> event list" where
  "fetch_config self w chain_id =
     (let url = api_url self @ ''/api/v1/contracts/config/'' @ str_int chain_id;
          ev = [HttpGet url (reg_headers self)]
      in case http_get w url (reg_headers self) of
           Raises e \<Rightarrow>
             (if is_connection_error e then
                (Inl (RuntimeError (connect_error_message (api_url self))), self, ev)
              else if is_timeout e then
                (Inl (RuntimeError (timeout_message url)), self, ev)
              else (Inl (RequestException e), self, ev))
         | Responds resp \<Rightarrow>
             (if \<not> ok resp then
                (Inl (RuntimeError (status_message (status_code resp) (resp_text resp))), self, ev)
              else
                (case resp_json resp of
                   None \<Rightarrow> (Inl JSONDecodeError, self, ev)
                 | Some body \<Rightarrow>
                     (if success body \<noteq> Some True then
                        (Inl (RuntimeError (api_error_message (dict_get (error body)))), self, ev)
                      else
                        (case data body of
                           None \<Rightarrow> (Inl (KeyError ''data''), self, ev)
                         | Some cfg \<Rightarrow> (Inr cfg, self\<lparr>config := Some cfg\<rparr>, ev))))))"

subsection \<open>load_broadcast_json\<close>

definition possible_paths :: "string \<Rightarrow> int \<Rightarrow> path list" where
  "possible_paths script_name chain_id =
     [Join (Join (Join (Join (Parent ScriptDir) ''broadcast'') script_name) (str_int chain_id))
        ''run-latest.json'',
      Join (Join (Join (Join (Join ScriptDir ''..'') ''broadcast'') script_name)
        (str_int chain_id)) ''run-latest.json'']"

fun find_broadcast :: "world \<Rightarrow> path list \<Rightarrow> event list \<Rightarrow> string option \<times> event list" where
  "find_broadcast w [] out = (None, out)"
| "find_broadcast w (p # ps) out =
     (let resolved = path_resolve w p in
      if path_exists w resolved then (Some resolved, out @ [FsExists resolved])
      else find_broadcast w ps (out @ [FsExists resolved]))"

definition not_found_message :: "string list \<Rightarrow> string \<Rightarrow> string" where
  "not_found_message searched script_name =
     ''Broadcast file not found. Searched:\<newline>'' @ py_join '', '' searched @ ''\<newline>\<newline>'' @
     ''Make sure you've run: forge script script/'' @ script_name @ '' --broadcast''"

definition load_broadcast_json :: "registrar \<Rightarrow> world \<Rightarrow> int \<Rightarrow> string \<Rightarrow> broadcast io" where
  "load_broadcast_json self w chain_id script_name =
     (let paths = possible_paths script_name chain_id in
      case find_broadcast w paths [] of
        (None, out) \<Rightarrow>
          (Inl (FileNotFoundError
             (not_found_message (map (path_resolve w) paths) script_name)), out)
      | (Some broadcast_path, out) \<Rightarrow>
          (let out' = out @ [Print (''Loading broadcast from: '' @ broadcast_path),
                             FsOpen broadcast_path]
           in case open_json w broadcast_path of
                Inl e \<Rightarrow> (Inl e, out')
              | Inr b \<Rightarrow> (Inr b, out')))"

subsection \<open>register_contracts\<close>

definition make_payload :: "int \<Rightarrow> pyval \<Rightarrow> deployment \<Rightarrow> payload" where
  "make_payload chain_id deployer dep =
     (let payload = \<lparr> p_chain_id = chain_id,
                       p_contract_mapping_id = mapping_id dep,
                       p_address = address dep,
                       p_deployment_tx_hash = tx_hash dep,
                       p_deployed_by = None \<rparr>
      in if truthy deployer then payload\<lparr>p_deployed_by := Some deployer\<rparr> else payload)"

text \<open>
  The loop carries the number \<open>k\<close> of POST requests issued so far, the two counters and
  the output. Every branch of the body goes on with the rest of the list.
\<close>

fun register_loop ::
  "registrar \<Rightarrow> world \<Rightarrow> int \<Rightarrow> pyval \<Rightarrow> deployment list \<Rightarrow> nat \<Rightarrow> (nat \<times> nat) \<times> event list
     \<Rightarrow> (nat \<times> nat) \<times> event list" where
  "register_loop self w chain_id deployer [] k ((success_count, failure_count), out) =
     ((success_count, failure_count), out)"
| "register_loop self w chain_id deployer (dep # deps) k ((success_count, failure_count), out) =
     (let payload = make_payload chain_id deployer dep;
          url = api_url self @ ''/api/v1/contracts'';
          ev = HttpPost url (reg_headers self) payload
      in case http_post w k url (reg_headers self) payload of
           Responds resp \<Rightarrow>
             (if ok resp then
                register_loop self w chain_id deployer deps (Suc k)
                  ((success_count + 1, failure_count),
                   out @ [ev, Print (''  Registered '' @ db_name dep @ '': '' @
                                       py_str (address dep))])
              else
                register_loop self w chain_id deployer deps (Suc k)
                  ((success_count, failure_count + 1),
                   out @ [ev, Print (''  Failed '' @ db_name dep @ '': '' @
                                       str_int (status_code resp) @ '' - '' @ resp_text resp)]))
         | Raises e \<Rightarrow>
             register_loop self w chain_id deployer deps (Suc k)
               ((success_count, failure_count + 1),
                out @ [ev, Print (''  Failed '' @ db_name dep @ '': '' @ exc_str e)]))"

definition register_contracts ::
  "registrar \<Rightarrow> world \<Rightarrow> nat \<Rightarrow> int \<Rightarrow> deployment list \<Rightarrow> (nat \<times> nat) io" where
  "register_contracts self w k chain_id deployments =
     (case config self of
        None \<Rightarrow> (Inl (RuntimeError ''Config not loaded. Call fetch_config() first.''), [])
      | Some cfg \<Rightarrow>
          (let deployer = dict_get (default_deployer (network cfg));
               (counts, out) = register_loop self w chain_id deployer deployments k ((0, 0), [])
           in (Inr counts, out)))"

section \<open>main\<close>

text \<open>
  \<open>main\<close> is written in three parts, each the rest of the function after one of its
  stages: \<open>main\<close> itself up to the configuration fetch, \<open>main_after_fetch\<close> from the
  report of the configuration and the authorization gate to the record load, and
  \<open>main_after_load\<close> from the extraction to the summary. The lists that the source
  prints in a loop are \<open>found_report\<close> and \<open>dry_run_report\<close>. No POST precedes the
  registration in a run, so \<open>register_contracts\<close> starts at POST number 0.
\<close>

record args =
  a_chain_id :: int
  a_api_url :: string
  a_api_key :: "string option"
  a_script :: string
  a_dry_run :: bool

datatype exit_status = Exit nat | Uncaught py_exc

definition rule60 :: string where
  "rule60 = replicate 60 CHR ''=''"

definition found_report :: "deployment list \<Rightarrow> event list" where
  "found_report deployments =
     Print (''   Found '' @ str_nat (length deployments) @ '' contracts to register:'') #
     map (\<lambda>dep. Print (''     - '' @ db_name dep @ '' ('' @ py_str (solidity_name dep) @ ''): '' @
                        py_str (address dep))) deployments"

definition dry_run_report :: "deployment list \<Rightarrow> event list" where
  "dry_run_report deployments =
     [Print ''\<newline>[4/4] DRY RUN - Skipping registration'',
      Print ''     Would register:''] @
     map (\<lambda>dep. Print (''       '' @ db_name dep @ '': '' @ py_str (address dep))) deployments"

definition main_after_load :: "args \<Rightarrow> world \<Rightarrow> registrar \<Rightarrow> broadcast \<Rightarrow> event list
     \<Rightarrow> exit_status \<times> event list" where
  "main_after_load a w self b out =
     (case extract_deployments self b of
        (Inl e, ev) \<Rightarrow> (Uncaught e, out @ [Print ''\<newline>[3/4] Extracting deployments...''] @ ev)
      | (Inr deployments, ev) \<Rightarrow>
          (let out3 = out @ [Print ''\<newline>[3/4] Extracting deployments...''] @ ev @
                      found_report deployments
           in if deployments = [] then
                (Exit 0, out3 @ [Print ''\<newline>[4/4] No contracts to register.''])
              else if a_dry_run a then
                (Exit 0, out3 @ dry_run_report deployments)
              else
                (case register_contracts self w 0 (a_chain_id a) deployments of
                   (Inl e, ev4) \<Rightarrow>
                     (Uncaught e, out3 @ [Print ''\<newline>[4/4] Registering contracts...''] @ ev4)
                 | (Inr (successes, failures), ev4) \<Rightarrow>
                     (let out4 = out3 @ [Print ''\<newline>[4/4] Registering contracts...''] @ ev4 @
                                 [Print (''\<newline>'' @ rule60)]
                      in if failures = 0 then
                           (Exit 0, out4 @
                              [Print (''SUCCESS: Registered '' @ str_nat successes @ '' contracts''),
                               Print ''\<newline>Contracts are now accessible via:'',
                               Print (''  GET '' @ a_api_url a @ ''/api/v1/contracts/'' @
                                        str_int (a_chain_id a)),
                               Print rule60])
                         else
                           (Exit 1, out4 @
                              [Print (''PARTIAL: Registered '' @ str_nat successes @
                                        '' contracts, '' @ str_nat failures @ '' failed'')])))))"

definition config_report :: "deploy_config \<Rightarrow> event list" where
  "config_report cfg =
     (let net = network_name (network cfg);
          display = display_name (network cfg);
          deployer = dict_get_default (default_deployer (network cfg)) (PyStr ''not configured'');
          mapping_count = length (mappings cfg)
      in [Print (''   Network: '' @ display @ '' ('' @ net @ '')''),
          Print (''   Default deployer: '' @ py_str deployer),
          Print (''   Contract mappings: '' @ str_nat mapping_count)])"

definition main_after_fetch :: "args \<Rightarrow> world \<Rightarrow> registrar \<Rightarrow> deploy_config \<Rightarrow> event list
     \<Rightarrow> exit_status \<times> event list" where
  "main_after_fetch a w self cfg out =
     (let net = network_name (network cfg);
          out1 = out @ config_report cfg
      in if net \<noteq> ''localhost'' \<and> (a_api_key a = None \<or> a_api_key a = Some []) then
           (Exit 1, out1 @
              [Print ''\<newline>ERROR: API key required for non-localhost deployments'',
               Print ''       Use --api-key flag to provide authentication''])
         else
           (let out2 = out1 @ [Print (''\<newline>[2/4] Loading broadcast from '' @ a_script a @ ''...'')]
            in case load_broadcast_json self w (a_chain_id a) (a_script a) of
                 (Inl e, ev) \<Rightarrow>
                   (case e of
                      FileNotFoundError msg \<Rightarrow> (Exit 1, out2 @ ev @ [Print (''ERROR: '' @ msg)])
                    | _ \<Rightarrow> (Uncaught e, out2 @ ev))
               | (Inr b, ev) \<Rightarrow> main_after_load a w self b (out2 @ ev)))"

definition banner :: "args \<Rightarrow> event list" where
  "banner a =
     [Print rule60,
      Print ''Nexus Protocol - Post-Deployment Contract Registration'',
      Print rule60,
      Print (''\<newline>[1/4] Fetching config for chain '' @ str_int (a_chain_id a) @ ''...'')]"

text \<open>
  \<open>main\<close> takes the parsed command line. A \<^verbatim>\<open>sys.exit(n)\<close> and a normal return are
  \<open>Exit n\<close> and \<open>Exit 0\<close>; an exception that no handler of \<open>main\<close> catches ends the run
  as \<open>Uncaught\<close>. The second component is everything the run printed, requested and
  read, in order.
\<close>

definition main :: "args \<Rightarrow> world \<Rightarrow> exit_status \<times> event list" where
  "main a w =
     (let self = init (a_api_url a) (a_api_key a);
          out0 = banner a
      in case fetch_config self w (a_chain_id a) of
           (Inl e, self', ev) \<Rightarrow>
             (case e of
                RuntimeError msg \<Rightarrow> (Exit 1, out0 @ ev @ [Print (''ERROR: '' @ msg)])
              | _ \<Rightarrow> (Uncaught e, out0 @ ev))
         | (Inr cfg, self', ev) \<Rightarrow> main_after_fetch a w self' cfg (out0 @ ev))"

section \<open>Example inputs\<close>

definition ex_mappings :: "contract_mapping list" where
  "ex_mappings =
     [\<lparr> m_id = 1, m_solidity_name = ''Staking'', m_db_name = ''nexusStaking'' \<rparr>,
      \<lparr> m_id = 2, m_solidity_name = ''Token'', m_db_name = ''nexusToken'' \<rparr>,
      \<lparr> m_id = 3, m_solidity_name = ''Governor'', m_db_name = ''nexusGovernor'' \<rparr>]"

definition ex_config :: "string \<Rightarrow> pyval option \<Rightarrow> deploy_config" where
  "ex_config net deployer =
     \<lparr> network = \<lparr> network_name = net, display_name = ''Example'', default_deployer = deployer \<rparr>,
       mappings = ex_mappings \<rparr>"

definition ex_self :: "pyval option \<Rightarrow> registrar" where
  "ex_self deployer = (init ''http://localhost:8080/'' None)\<lparr>config := Some (ex_config ''localhost'' deployer)\<rparr>"

definition ex_tx :: "string \<Rightarrow> string \<Rightarrow> string \<Rightarrow> tx" where
  "ex_tx kind name addr =
     \<lparr> transactionType = Some (PyStr kind), contractName = Some (PyStr name),
       contractAddress = Some (PyStr addr), hash = Some (PyStr (''0xh'' @ addr)) \<rparr>"

definition ex_record :: broadcast where
  "ex_record = \<lparr> transactions = Some [ex_tx ''CREATE'' ''Staking'' ''0xa1'',
                                       ex_tx ''CREATE'' ''Unrecognized'' ''0xa2''] \<rparr>"

definition ex_call_record :: broadcast where
  "ex_call_record = \<lparr> transactions = Some [ex_tx ''CALL'' ''Staking'' ''0xa1''] \<rparr>"

definition ex_three_record :: broadcast where
  "ex_three_record = \<lparr> transactions = Some [ex_tx ''CREATE'' ''Staking'' ''0xa1'',
                                             ex_tx ''CREATE'' ''Token'' ''0xa2'',
                                             ex_tx ''CREATE'' ''Governor'' ''0xa3''] \<rparr>"

definition ex_deployment :: "string \<Rightarrow> string \<Rightarrow> int \<Rightarrow> string \<Rightarrow> deployment" where
  "ex_deployment name db n addr =
     \<lparr> solidity_name = PyStr name, db_name = db, mapping_id = n,
       address = PyStr addr, tx_hash = PyStr (''0xh'' @ addr) \<rparr>"

definition ex_response :: "int \<Rightarrow> api_body option \<Rightarrow> response" where
  "ex_response code body =
     \<lparr> ok = (code < 400), status_code = code, resp_text = ''body'', resp_json = body \<rparr>"

definition ex_world :: "string \<Rightarrow> world" where
  "ex_world net =
     \<lparr> http_get = (\<lambda>url h. Responds (ex_response 200
          (Some \<lparr> success = Some True, data = Some (ex_config net None), error = None \<rparr>))),
       http_post = (\<lambda>k url h p. Responds (ex_response (if k = 1 then 500 else 201) None)),
       path_resolve = (\<lambda>p. ''/repo/contracts/broadcast/DeployLocal.s.sol/31337/run-latest.json''),
       path_exists = (\<lambda>p. True),
       open_json = (\<lambda>p. Inr ex_three_record) \<rparr>"

definition ex_args :: "bool \<Rightarrow> args" where
  "ex_args dry =
     \<lparr> a_chain_id = 31337, a_api_url = ''http://localhost:8080'', a_api_key = None,
       a_script = ''DeployLocal.s.sol'', a_dry_run = dry \<rparr>"

definition ex_get_world :: "http_result \<Rightarrow> world" where
  "ex_get_world reply = (ex_world ''localhost'')\<lparr>http_get := (\<lambda>url h. reply)\<rparr>"

definition ex_exc :: "bool \<Rightarrow> bool \<Rightarrow> req_exc" where
  "ex_exc conn tmo = \<lparr> is_connection_error = conn, is_timeout = tmo, exc_str = ''failed'' \<rparr>"

definition ex_fs_world :: "(string \<Rightarrow> bool) \<Rightarrow> world" where
  "ex_fs_world present =
     (ex_world ''localhost'')
       \<lparr> path_resolve := (\<lambda>p. case p of
            Join (Join (Join (Join (Parent ScriptDir) d) s) c) f \<Rightarrow> ''/repo/contracts/broadcast/run-latest.json''
          | _ \<Rightarrow> ''/link/contracts/broadcast/run-latest.json''),
         path_exists := present \<rparr>"

definition ex_three_deployments :: "deployment list" where
  "ex_three_deployments =
     [ex_deployment ''Staking'' ''nexusStaking'' 1 ''0xa1'',
      ex_deployment ''Token'' ''nexusToken'' 2 ''0xa2'',
      ex_deployment ''Governor'' ''nexusGovernor'' 3 ''0xa3'']"

definition ex_fetched :: "string \<Rightarrow> registrar" where
  "ex_fetched net = (init ''http://localhost:8080'' None)\<lparr>config := Some (ex_config net None)\<rparr>"

definition ex_post :: "int \<Rightarrow> string \<Rightarrow> event" where
  "ex_post n addr =
     HttpPost ''http://localhost:8080/api/v1/contracts'' [(''Content-Type'', ''application/json'')]
       \<lparr> p_chain_id = 31337, p_contract_mapping_id = n, p_address = PyStr addr,
         p_deployment_tx_hash = PyStr (''0xh'' @ addr), p_deployed_by = None \<rparr>"


section \<open>Auxiliary facts\<close>

lemmas ex_defs = ex_mappings_def ex_config_def ex_self_def ex_tx_def ex_record_def
  ex_call_record_def ex_three_record_def ex_deployment_def ex_response_def ex_world_def ex_args_def

subsection \<open>The dict of mappings and the extraction loop\<close>

lemma build_dict_lookup:
  "build_dict ms d0 s =
     (if \<exists>m\<in>set ms. m_solidity_name m = s
      then Some (last (filter (\<lambda>m. m_solidity_name m = s) ms)) else d0 s)"
proof (induction ms arbitrary: d0)
  case Nil
  show ?case by simp
next
  case (Cons m ms)
  show ?case by (simp add: Cons.IH filter_empty_conv)
qed

lemma dict_lookup_solidity_to_mapping:
  "dict_lookup (solidity_to_mapping ms) v =
     (if \<exists>m\<in>set ms. PyStr (m_solidity_name m) = v
      then Some (last (filter (\<lambda>m. PyStr (m_solidity_name m) = v) ms)) else None)"
proof (cases v)
  case PyNone
  then show ?thesis by (simp add: dict_lookup_def)
next
  case (PyStr s)
  then show ?thesis
    by (simp add: dict_lookup_def solidity_to_mapping_def build_dict_lookup)
qed

lemma extract_loop_acc:
  "extract_loop d ts (deps, out) =
     (deps @ fst (extract_loop d ts ([], [])), out @ snd (extract_loop d ts ([], [])))"
proof (induction ts arbitrary: deps out)
  case Nil
  show ?case by simp
next
  case (Cons t ts)
  show ?case
    apply (simp only: extract_loop.simps Let_def)
    apply (cases "dict_get (transactionType t) = PyStr ''CREATE''")
    subgoal
      apply (cases "dict_lookup d (dict_get (contractName t))")
      subgoal using Cons.IH[of deps "out @ [Print (skip_message (dict_get (contractName t)))]"]
           Cons.IH[of "[]" "[Print (skip_message (dict_get (contractName t)))]"] by simp
      subgoal for m using Cons.IH[of "deps @ [\<lparr> solidity_name = dict_get (contractName t),
                     db_name = m_db_name m,
                     mapping_id = m_id m,
                     address = dict_get (contractAddress t),
                     tx_hash = dict_get (hash t) \<rparr>]" out]
           Cons.IH[of "[\<lparr> solidity_name = dict_get (contractName t),
                     db_name = m_db_name m,
                     mapping_id = m_id m,
                     address = dict_get (contractAddress t),
                     tx_hash = dict_get (hash t) \<rparr>]" "[]"] by simp
      done
    subgoal using Cons.IH[of deps out] by simp
    done
qed


lemma extract_loop_Cons:
  "extract_loop d (t # ts) ([], []) =
     (if dict_get (transactionType t) = PyStr ''CREATE'' then
        (case dict_lookup d (dict_get (contractName t)) of
           Some mapping \<Rightarrow>
             (\<lparr> solidity_name = dict_get (contractName t),
                db_name = m_db_name mapping,
                mapping_id = m_id mapping,
                address = dict_get (contractAddress t),
                tx_hash = dict_get (hash t) \<rparr> # fst (extract_loop d ts ([], [])),
              snd (extract_loop d ts ([], [])))
         | None \<Rightarrow>
             (fst (extract_loop d ts ([], [])),
              Print (skip_message (dict_get (contractName t))) # snd (extract_loop d ts ([], []))))
      else extract_loop d ts ([], []))"
proof (cases "dict_get (transactionType t) = PyStr ''CREATE''")
  case False
  then show ?thesis by simp
next
  case create: True
  show ?thesis
  proof (cases "dict_lookup d (dict_get (contractName t))")
    case None
    with create show ?thesis
      using extract_loop_acc[of d ts "[]" "[Print (skip_message (dict_get (contractName t)))]"]
      by simp
  next
    case (Some m)
    with create show ?thesis
      using extract_loop_acc[of d ts "[\<lparr> solidity_name = dict_get (contractName t),
                db_name = m_db_name m,
                mapping_id = m_id m,
                address = dict_get (contractAddress t),
                tx_hash = dict_get (hash t) \<rparr>]" "[]"]
      by simp
  qed
qed

lemma extract_loop_deployments:
  "fst (extract_loop (solidity_to_mapping ms) ts ([], [])) =
     map (\<lambda>t. \<lparr> solidity_name = dict_get (contractName t),
                db_name = m_db_name (last (filter (\<lambda>m. PyStr (m_solidity_name m) = dict_get (contractName t)) ms)),
                mapping_id = m_id (last (filter (\<lambda>m. PyStr (m_solidity_name m) = dict_get (contractName t)) ms)),
                address = dict_get (contractAddress t),
                tx_hash = dict_get (hash t) \<rparr>)
       (filter (\<lambda>t. dict_get (transactionType t) = PyStr ''CREATE'' \<and>
                  (\<exists>m\<in>set ms. PyStr (m_solidity_name m) = dict_get (contractName t))) ts)"
proof (induction ts)
  case Nil
  show ?case by simp
next
  case (Cons t ts)
  show ?case
    by (simp only: extract_loop_Cons dict_lookup_solidity_to_mapping)
       (simp add: Cons.IH)
qed

lemma extract_loop_output:
  "snd (extract_loop (solidity_to_mapping ms) ts ([], [])) =
     map (\<lambda>t. Print (skip_message (dict_get (contractName t))))
       (filter (\<lambda>t. dict_get (transactionType t) = PyStr ''CREATE'' \<and>
                  \<not> (\<exists>m\<in>set ms. PyStr (m_solidity_name m) = dict_get (contractName t))) ts)"
proof (induction ts)
  case Nil
  show ?case by simp
next
  case (Cons t ts)
  show ?case
    by (simp only: extract_loop_Cons dict_lookup_solidity_to_mapping)
       (simp add: Cons.IH)
qed

lemma extract_deployments_unfold:
  assumes "config self = Some cfg"
  shows "extract_deployments self b =
           (Inr (fst (extract_loop (solidity_to_mapping (mappings cfg)) (get_transactions b) ([], []))),
            snd (extract_loop (solidity_to_mapping (mappings cfg)) (get_transactions b) ([], [])))"
  using assms by (simp add: extract_deployments_def Let_def split: prod.split)

subsection \<open>The registration loop\<close>

lemma register_loop_successes:
  "fst (fst (register_loop self w c dd deps k ((s, f), out))) =
     s + length (filter (\<lambda>(i, dep).
           case http_post w i (api_url self @ ''/api/v1/contracts'') (reg_headers self)
                  (make_payload c dd dep) of
             Responds resp \<Rightarrow> ok resp | Raises e \<Rightarrow> False) (enumerate k deps))"
  by (induction deps arbitrary: k s f out) (simp_all add: Let_def split: http_result.split)

lemma register_loop_failures:
  "snd (fst (register_loop self w c dd deps k ((s, f), out))) =
     f + length (filter (\<lambda>(i, dep). \<not>
          (case http_post w i (api_url self @ ''/api/v1/contracts'') (reg_headers self)
                  (make_payload c dd dep) of
             Responds resp \<Rightarrow> ok resp | Raises e \<Rightarrow> False)) (enumerate k deps))"
  by (induction deps arbitrary: k s f out) (simp_all add: Let_def split: http_result.split)

lemma register_loop_posts:
  "filter (\<lambda>e. case e of HttpPost u h p \<Rightarrow> True | _ \<Rightarrow> False)
       (snd (register_loop self w c dd deps k ((s, f), out))) =
     filter (\<lambda>e. case e of HttpPost u h p \<Rightarrow> True | _ \<Rightarrow> False) out @
     map (\<lambda>dep. HttpPost (api_url self @ ''/api/v1/contracts'') (reg_headers self)
                  (make_payload c dd dep)) deps"
  by (induction deps arbitrary: k s f out) (simp_all add: Let_def split: http_result.split)

lemma register_contracts_unfold:
  assumes "config self = Some cfg"
  shows "register_contracts self w k c deps =
     (Inr (fst (register_loop self w c (dict_get (default_deployer (network cfg))) deps k ((0, 0), []))),
      snd (register_loop self w c (dict_get (default_deployer (network cfg))) deps k ((0, 0), [])))"
  using assms by (simp add: register_contracts_def Let_def split: prod.split)

lemma register_contracts_counts:
  assumes "config self = Some cfg"
  shows "fst (register_contracts self w k c deps) =
     Inr (length (filter (\<lambda>(i, dep).
           case http_post w i (api_url self @ ''/api/v1/contracts'') (reg_headers self)
                  (make_payload c (dict_get (default_deployer (network cfg))) dep) of
             Responds resp \<Rightarrow> ok resp | Raises e \<Rightarrow> False) (enumerate k deps)),
          length (filter (\<lambda>(i, dep). \<not>
           (case http_post w i (api_url self @ ''/api/v1/contracts'') (reg_headers self)
                  (make_payload c (dict_get (default_deployer (network cfg))) dep) of
             Responds resp \<Rightarrow> ok resp | Raises e \<Rightarrow> False)) (enumerate k deps)))"
proof -
  let ?r = "register_loop self w c (dict_get (default_deployer (network cfg))) deps k ((0, 0), [])"
  have "fst ?r = (fst (fst ?r), snd (fst ?r))" by simp
  then show ?thesis
    by (simp only: register_contracts_unfold[OF assms] fst_conv
         register_loop_successes register_loop_failures add_0)
qed

lemma register_contracts_posts:
  assumes "config self = Some cfg"
  shows "filter (\<lambda>e. case e of HttpPost u h p \<Rightarrow> True | _ \<Rightarrow> False)
       (snd (register_contracts self w k c deps)) =
     map (\<lambda>dep. HttpPost (api_url self @ ''/api/v1/contracts'') (reg_headers self)
                  (make_payload c (dict_get (default_deployer (network cfg))) dep)) deps"
  by (simp add: register_contracts_unfold[OF assms] register_loop_posts)

subsection \<open>The fetcher, the loader and the payload\<close>

lemma str_int_31337: "str_int 31337 = ''31337''"
  by (simp add: str_int_def digit_char_def)

lemma str_int_500: "str_int 500 = ''500''"
  by (simp add: str_int_def digit_char_def)

lemma fetch_config_events:
  "snd (snd (fetch_config self w c)) =
     [HttpGet (api_url self @ ''/api/v1/contracts/config/'' @ str_int c) (reg_headers self)]"
  by (simp add: fetch_config_def Let_def split: http_result.split option.split)


lemma messages_distinct:
  "connect_error_message b \<noteq> timeout_message u"
  "connect_error_message b \<noteq> status_message c t"
  "connect_error_message b \<noteq> api_error_message v"
  "timeout_message u \<noteq> status_message c t"
  "timeout_message u \<noteq> api_error_message v"
  "status_message c t \<noteq> api_error_message v"
  by (simp_all add: connect_error_message_def timeout_message_def status_message_def
        api_error_message_def)

lemma ex_world_sel: 
  "http_get (ex_get_world r) = (\<lambda>url h. r)"
  by (simp add: ex_get_world_def)

lemma find_broadcast_char:
  "find_broadcast w ps out =
     (find (path_exists w) (map (path_resolve w) ps),
      out @ map FsExists
        (case find (path_exists w) (map (path_resolve w) ps) of
           None \<Rightarrow> map (path_resolve w) ps
         | Some p \<Rightarrow> takeWhile (\<lambda>q. \<not> path_exists w q) (map (path_resolve w) ps) @ [p]))"
  by (induction ps arbitrary: out) (simp_all add: Let_def split: option.split)

lemma sublist_py_join:
  "c \<in> set xs \<Longrightarrow> sublist c (py_join sep xs)"
proof (induction xs)
  case Nil
  then show ?case by simp
next
  case (Cons x xs)
  show ?case
  proof (cases "c = x")
    case True
    then show ?thesis by (simp add: py_join_def sublist_append)
  next
    case False
    with Cons.prems have "c \<in> set xs" by simp
    then obtain ys zs where "xs = ys @ c # zs" by (auto simp: in_set_conv_decomp)
    then have "py_join sep (x # xs) =
        (x @ concat (map (\<lambda>z. sep @ z) ys) @ sep) @ c @ concat (map (\<lambda>z. sep @ z) zs)"
      by (simp add: py_join_def)
    then show ?thesis by (metis sublist_appendI)
  qed
qed

lemma make_payload_absent:
  "\<not> truthy d \<Longrightarrow> make_payload c d dep =
     \<lparr> p_chain_id = c, p_contract_mapping_id = mapping_id dep, p_address = address dep,
       p_deployment_tx_hash = tx_hash dep, p_deployed_by = None \<rparr>"
  by (simp add: make_payload_def)


lemma ex_self_config: "config (ex_self d) = Some (ex_config ''localhost'' d)"
  by (simp add: ex_self_def)

lemma ex_self_url: "api_url (ex_self d) = ''http://localhost:8080''"
  by (simp add: ex_self_def init_def rstrip_slash_def)

lemma ex_self_headers: "reg_headers (ex_self d) = [(''Content-Type'', ''application/json'')]"
  by (simp add: ex_self_def init_def)

lemma register_loop_same_payload:
  assumes "make_payload c d = make_payload c d'"
  shows "register_loop self w c d deps j ((s, f), out) =
         register_loop self w c d' deps j ((s, f), out)"
  by (induction deps arbitrary: j s f out)
     (simp_all add: Let_def assms split: http_result.split)

lemma register_loop_config_irrelevant:
  "register_loop (self\<lparr>config := x\<rparr>) w c d deps j ((s, f), out) =
   register_loop self w c d deps j ((s, f), out)"
  by (induction deps arbitrary: j s f out)
     (simp_all add: Let_def split: http_result.split)

subsection \<open>The stages of a run\<close>

lemma fetch_config_no_post:
  "filter (\<lambda>e. case e of HttpPost u h p \<Rightarrow> True | _ \<Rightarrow> False) (snd (snd (fetch_config self w c))) = []"
  by (simp add: fetch_config_events)

lemma load_broadcast_json_no_post:
  "filter (\<lambda>e. case e of HttpPost u h p \<Rightarrow> True | _ \<Rightarrow> False)
     (snd (load_broadcast_json self w c s)) = []"
  by (simp add: load_broadcast_json_def find_broadcast_char Let_def filter_empty_conv
        split: option.split sum.split)

lemma extract_deployments_no_post:
  "filter (\<lambda>e. case e of HttpPost u h p \<Rightarrow> True | _ \<Rightarrow> False)
     (snd (extract_deployments self b)) = []"
proof (cases "config self")
  case None
  then show ?thesis by (simp add: extract_deployments_def)
next
  case (Some cfg)
  show ?thesis
    by (simp add: extract_deployments_unfold[OF Some] extract_loop_output filter_empty_conv)
qed

lemma reports_no_post:
  "filter (\<lambda>e. case e of HttpPost u h p \<Rightarrow> True | _ \<Rightarrow> False) (banner a) = []"
  "filter (\<lambda>e. case e of HttpPost u h p \<Rightarrow> True | _ \<Rightarrow> False) (config_report cfg) = []"
  "filter (\<lambda>e. case e of HttpPost u h p \<Rightarrow> True | _ \<Rightarrow> False) (found_report deps) = []"
  "filter (\<lambda>e. case e of HttpPost u h p \<Rightarrow> True | _ \<Rightarrow> False) (dry_run_report deps) = []"
  by (simp_all add: banner_def config_report_def found_report_def dry_run_report_def
        filter_empty_conv Let_def)

lemma load_broadcast_json_probes:
  "\<exists>p. FsExists p \<in> set (snd (load_broadcast_json self w c s))"
  by (auto simp add: load_broadcast_json_def possible_paths_def Let_def split: sum.split)

lemma main_fetched:
  assumes "fetch_config (init (a_api_url a) (a_api_key a)) w (a_chain_id a) = (Inr cfg, self', ev)"
  shows "main a w = main_after_fetch a w self' cfg (banner a @ ev)"
  by (simp add: main_def Let_def assms)

lemma main_loaded:
  assumes "fetch_config (init (a_api_url a) (a_api_key a)) w (a_chain_id a) = (Inr cfg, self', ev1)"
      and "network_name (network cfg) = ''localhost'' \<or> (a_api_key a \<noteq> None \<and> a_api_key a \<noteq> Some [])"
      and "load_broadcast_json self' w (a_chain_id a) (a_script a) = (Inr b, ev2)"
  shows "main a w = main_after_load a w self' b
           (banner a @ ev1 @ config_report cfg @
            [Print (''\<newline>[2/4] Loading broadcast from '' @ a_script a @ ''...'')] @ ev2)"
  using assms(2,3) by (auto simp add: main_fetched[OF assms(1)] main_after_fetch_def Let_def)

lemma ex_fetch:
  "fetch_config (init (a_api_url (ex_args dry)) (a_api_key (ex_args dry))) (ex_world net)
       (a_chain_id (ex_args dry)) =
     (Inr (ex_config net None),
      (init ''http://localhost:8080'' None)\<lparr>config := Some (ex_config net None)\<rparr>,
      [HttpGet ''http://localhost:8080/api/v1/contracts/config/31337''
         [(''Content-Type'', ''application/json'')]])"
  by (simp add: fetch_config_def ex_args_def ex_world_def ex_response_def Let_def
        str_int_31337 init_def rstrip_slash_def)

lemma rule60_eval: "rule60 = ''============================================================''"
  by (simp add: rule60_def eval_nat_numeral)


lemma main_after_load_live:
  assumes "extract_deployments self b = (Inr deployments, ev3)"
      and "deployments \<noteq> []"
      and "\<not> a_dry_run a"
      and "register_contracts self w 0 (a_chain_id a) deployments = (Inr (s, f), ev4)"
  shows "main_after_load a w self b out =
           (if f = 0 then Exit 0 else Exit 1,
            out @ [Print ''\<newline>[3/4] Extracting deployments...''] @ ev3 @
            found_report deployments @
            [Print ''\<newline>[4/4] Registering contracts...''] @ ev4 @
            [Print (''\<newline>'' @ rule60)] @
            (if f = 0 then
               [Print (''SUCCESS: Registered '' @ str_nat s @ '' contracts''),
                Print ''\<newline>Contracts are now accessible via:'',
                Print (''  GET '' @ a_api_url a @ ''/api/v1/contracts/'' @ str_int (a_chain_id a)),
                Print rule60]
             else
               [Print (''PARTIAL: Registered '' @ str_nat s @ '' contracts, '' @ str_nat f @
                         '' failed'')]))"
  using assms by (simp add: main_after_load_def Let_def)


lemma ex_fetch_run:
  "fetch_config (init (a_api_url (ex_args dry)) (a_api_key (ex_args dry))) (ex_world net)
       (a_chain_id (ex_args dry)) =
     (Inr (ex_config net None), ex_fetched net,
      [HttpGet ''http://localhost:8080/api/v1/contracts/config/31337''
         [(''Content-Type'', ''application/json'')]])"
  unfolding ex_fetched_def by (rule ex_fetch)

lemma ex_load:
  "load_broadcast_json self (ex_world net) c s =
     (Inr ex_three_record,
      [FsExists ''/repo/contracts/broadcast/DeployLocal.s.sol/31337/run-latest.json'',
       Print ''Loading broadcast from: /repo/contracts/broadcast/DeployLocal.s.sol/31337/run-latest.json'',
       FsOpen ''/repo/contracts/broadcast/DeployLocal.s.sol/31337/run-latest.json''])"
  by (simp add: load_broadcast_json_def possible_paths_def ex_world_def Let_def)

lemma ex_fetched_config: "config (ex_fetched net) = Some (ex_config net None)"
  by (simp add: ex_fetched_def)

lemma ex_extract:
  "extract_deployments (ex_fetched net) ex_three_record = (Inr ex_three_deployments, [])"
  by (simp add: extract_deployments_def ex_fetched_def ex_config_def ex_mappings_def
        solidity_to_mapping_def get_transactions_def ex_three_record_def ex_tx_def
        dict_get_def dict_lookup_def ex_three_deployments_def ex_deployment_def Let_def)

lemma ex_posts:
  "map (\<lambda>dep. HttpPost (api_url (ex_fetched net) @ ''/api/v1/contracts'') (reg_headers (ex_fetched net))
          (make_payload 31337 (dict_get (default_deployer (network (ex_config net None)))) dep))
     ex_three_deployments =
   [ex_post 1 ''0xa1'', ex_post 2 ''0xa2'', ex_post 3 ''0xa3'']"
  by (simp add: ex_fetched_def init_def rstrip_slash_def ex_config_def dict_get_def
        make_payload_def truthy_def ex_three_deployments_def ex_deployment_def ex_post_def)

lemma ex_counts:
  "length (filter (\<lambda>(i, dep). case http_post (ex_world net) i u h (body dep) of
                                Responds resp \<Rightarrow> ok resp | Raises e \<Rightarrow> False)
             (enumerate 0 ex_three_deployments)) = 2"
  "length (filter (\<lambda>x. \<not> (case x of (i, dep) \<Rightarrow> (case http_post (ex_world net) i u h (body dep) of
                                Responds resp \<Rightarrow> ok resp | Raises e \<Rightarrow> False)))
             (enumerate 0 ex_three_deployments)) = 1"
  by (simp_all add: ex_three_deployments_def ex_world_def ex_response_def)


section \<open>Properties of the cross-referencer\<close>

text \<open>
  C1. Once the configuration is loaded, \<open>extract_deployments\<close> returns, in the order of the
  record's transactions, exactly one Deployment for every transaction whose type is
  \<^verbatim>\<open>CREATE\<close> and whose \<^verbatim>\<open>contractName\<close> is the \<^verbatim>\<open>solidity_name\<close> of some mapping, and
  nothing for any other transaction. The Deployment carries the transaction's name,
  address and hash, and the \<^verbatim>\<open>db_name\<close> and \<^verbatim>\<open>id\<close> of the mapping of that name (the last
  one in the list, which is the only one when the names are unique).
\<close>

theorem extract_deployments_exact:
  assumes "config self = Some cfg"
  shows "fst (extract_deployments self b) =
     Inr (map (\<lambda>t.
            let name = dict_get (contractName t);
                mapping = last (filter (\<lambda>m. PyStr (m_solidity_name m) = name) (mappings cfg))
            in \<lparr> solidity_name = name,
                 db_name = m_db_name mapping,
                 mapping_id = m_id mapping,
                 address = dict_get (contractAddress t),
                 tx_hash = dict_get (hash t) \<rparr>)
          (filter (\<lambda>t. dict_get (transactionType t) = PyStr ''CREATE'' \<and>
                       (\<exists>m\<in>set (mappings cfg). PyStr (m_solidity_name m) = dict_get (contractName t)))
             (get_transactions b)))"
  by (simp only: extract_deployments_unfold[OF assms] fst_conv extract_loop_deployments Let_def)

theorem extract_deployments_exact_witness:
  "fst (extract_deployments (ex_self None) ex_record) =
     Inr [ex_deployment ''Staking'' ''nexusStaking'' 1 ''0xa1'']"
proof -
  have h: "config (ex_self None) = Some (ex_config ''localhost'' None)"
    by (simp add: ex_self_def)
  show ?thesis
    using extract_deployments_exact[OF h, of ex_record]
    by (simp add: ex_defs get_transactions_def dict_get_def)
qed

text \<open>
  C2, as stated, asks for a message about every transaction that yields no Deployment.
  A transaction that is not a \<^verbatim>\<open>CREATE\<close> is passed over by the guard of the loop with no
  message at all: the record below holds one \<^verbatim>\<open>CALL\<close> transaction, and the result is no
  Deployment and no output.
\<close>

theorem extract_deployments_drops_call_silently:
  "get_transactions ex_call_record = [ex_tx ''CALL'' ''Staking'' ''0xa1''] \<and>
   extract_deployments (ex_self None) ex_call_record = (Inr [], [])"
  by (simp add: ex_defs get_transactions_def dict_get_def extract_deployments_def)

text \<open>
  C2, amended. The output of \<open>extract_deployments\<close> is one skip message, naming the
  contract, for every \<^verbatim>\<open>CREATE\<close> transaction whose name has no mapping, in the order of
  the record, and nothing else: a transaction of another type yields neither a
  Deployment nor a message.
\<close>

theorem extract_deployments_reports_unmapped_creates:
  assumes "config self = Some cfg"
  shows "snd (extract_deployments self b) =
     map (\<lambda>t. Print (''  Skipping '' @ py_str (dict_get (contractName t)) @
                     '': not in contract_mappings table''))
       (filter (\<lambda>t. dict_get (transactionType t) = PyStr ''CREATE'' \<and>
                    \<not> (\<exists>m\<in>set (mappings cfg). PyStr (m_solidity_name m) = dict_get (contractName t)))
          (get_transactions b))"
  by (simp only: extract_deployments_unfold[OF assms] snd_conv extract_loop_output skip_message_def)

theorem extract_deployments_reports_witness:
  "snd (extract_deployments (ex_self None) ex_record) =
     [Print ''  Skipping Unrecognized: not in contract_mappings table'']"
proof -
  have h: "config (ex_self None) = Some (ex_config ''localhost'' None)"
    by (simp add: ex_self_def)
  show ?thesis
    using extract_deployments_reports_unmapped_creates[OF h, of ex_record]
    by (simp add: ex_defs get_transactions_def dict_get_def py_str_def)
qed

text \<open>
  C10. While the stored configuration is still \<^verbatim>\<open>None\<close>, \<open>extract_deployments\<close> and
  \<open>register_contracts\<close> raise the \<^verbatim>\<open>RuntimeError\<close> at once, whatever the record, the
  world and the deployments are: the output is empty, so no transaction was reported
  and no request was issued. Neither method assigns to the registrar, which is why
  neither returns one.
\<close>

theorem config_required:
  assumes "config self = None"
  shows "extract_deployments self b =
           (Inl (RuntimeError ''Config not loaded. Call fetch_config() first.''), []) \<and>
         register_contracts self w k chain_id deployments =
           (Inl (RuntimeError ''Config not loaded. Call fetch_config() first.''), [])"
  using assms by (simp add: extract_deployments_def register_contracts_def)

theorem config_required_witness:
  "extract_deployments (init ''http://localhost:8080'' None) ex_record =
     (Inl (RuntimeError ''Config not loaded. Call fetch_config() first.''), []) \<and>
   register_contracts (init ''http://localhost:8080'' None) (ex_world ''localhost'') 0 31337
       [ex_deployment ''Staking'' ''nexusStaking'' 1 ''0xa1''] =
     (Inl (RuntimeError ''Config not loaded. Call fetch_config() first.''), [])"
proof -
  have h: "config (init ''http://localhost:8080'' None) = None"
    by (simp add: init_def)
  show ?thesis by (rule config_required[OF h])
qed

section \<open>Properties of the configuration fetcher\<close>

text \<open>
  C7. \<open>fetch_config\<close> fails at once, after its single GET, in each of the four failure
  modes: (a) the request raises a \<^verbatim>\<open>ConnectionError\<close>, (b) it raises a \<^verbatim>\<open>Timeout\<close> (that
  is not also a \<^verbatim>\<open>ConnectionError\<close>, which the first handler would take), (c) the
  response is not \<^verbatim>\<open>ok\<close>, (d) the response is \<^verbatim>\<open>ok\<close> and its body has no true
  \<^verbatim>\<open>success\<close>. Each mode raises a \<^verbatim>\<open>RuntimeError\<close> with a message of its own, the four
  messages differ whatever their arguments are, and the registrar is returned as it
  was: no configuration is stored.
\<close>

theorem fetch_config_failure_modes:
  "let url = api_url self @ ''/api/v1/contracts/config/'' @ str_int chain_id;
       reply = http_get w url (reg_headers self);
       fails_with = (\<lambda>msg. fetch_config self w chain_id =
                      (Inl (RuntimeError msg), self, [HttpGet url (reg_headers self)]))
   in (\<forall>e. reply = Raises e \<and> is_connection_error e \<longrightarrow>
         fails_with (connect_error_message (api_url self))) \<and>
      (\<forall>e. reply = Raises e \<and> \<not> is_connection_error e \<and> is_timeout e \<longrightarrow>
         fails_with (timeout_message url)) \<and>
      (\<forall>resp. reply = Responds resp \<and> \<not> ok resp \<longrightarrow>
         fails_with (status_message (status_code resp) (resp_text resp))) \<and>
      (\<forall>resp body. reply = Responds resp \<and> ok resp \<and> resp_json resp = Some body \<and>
           success body \<noteq> Some True \<longrightarrow>
         fails_with (api_error_message (dict_get (error body)))) \<and>
      (\<forall>b u c t v.
         connect_error_message b \<noteq> timeout_message u \<and>
         connect_error_message b \<noteq> status_message c t \<and>
         connect_error_message b \<noteq> api_error_message v \<and>
         timeout_message u \<noteq> status_message c t \<and>
         timeout_message u \<noteq> api_error_message v \<and>
         status_message c t \<noteq> api_error_message v)"
  unfolding Let_def
  apply (intro conjI allI impI)
  subgoal by (simp add: fetch_config_def Let_def)
  subgoal by (simp add: fetch_config_def Let_def)
  subgoal by (simp add: fetch_config_def Let_def)
  subgoal by (simp add: fetch_config_def Let_def)
  by (rule messages_distinct)+

theorem fetch_config_failure_modes_witness:
  "fetch_config (init ''http://localhost:8080'' None) (ex_get_world (Raises (ex_exc True False))) 31337 =
     (Inl (RuntimeError ''Cannot connect to API at http://localhost:8080. Is the backend running?''),
      init ''http://localhost:8080'' None,
      [HttpGet ''http://localhost:8080/api/v1/contracts/config/31337'' [(''Content-Type'', ''application/json'')]]) \<and>
   fetch_config (init ''http://localhost:8080'' None) (ex_get_world (Raises (ex_exc False True))) 31337 =
     (Inl (RuntimeError ''API request timed out: http://localhost:8080/api/v1/contracts/config/31337''),
      init ''http://localhost:8080'' None,
      [HttpGet ''http://localhost:8080/api/v1/contracts/config/31337'' [(''Content-Type'', ''application/json'')]]) \<and>
   fetch_config (init ''http://localhost:8080'' None) (ex_get_world (Responds (ex_response 500 None))) 31337 =
     (Inl (RuntimeError ''Failed to fetch config: 500 - body''),
      init ''http://localhost:8080'' None,
      [HttpGet ''http://localhost:8080/api/v1/contracts/config/31337'' [(''Content-Type'', ''application/json'')]]) \<and>
   fetch_config (init ''http://localhost:8080'' None)
       (ex_get_world (Responds (ex_response 200
          (Some \<lparr> success = Some False, data = None, error = Some (PyStr ''unknown chain'') \<rparr>)))) 31337 =
     (Inl (RuntimeError ''API error: unknown chain''),
      init ''http://localhost:8080'' None,
      [HttpGet ''http://localhost:8080/api/v1/contracts/config/31337'' [(''Content-Type'', ''application/json'')]])"
proof -
  let ?self = "init ''http://localhost:8080'' None"
  have au: "api_url ?self = ''http://localhost:8080''"
    by (simp add: init_def rstrip_slash_def)
  have url: "api_url ?self @ ''/api/v1/contracts/config/'' @ str_int 31337 =
             ''http://localhost:8080/api/v1/contracts/config/31337''"
    by (simp add: au str_int_31337)
  have hd: "reg_headers ?self = [(''Content-Type'', ''application/json'')]"
    by (simp add: init_def)
  note m = fetch_config_failure_modes[where self = ?self and chain_id = 31337, unfolded Let_def url hd]
  show ?thesis
    using m[of "ex_get_world (Raises (ex_exc True False))"]
          m[of "ex_get_world (Raises (ex_exc False True))"]
          m[of "ex_get_world (Responds (ex_response 500 None))"]
          m[of "ex_get_world (Responds (ex_response 200
          (Some \<lparr> success = Some False, data = None, error = Some (PyStr ''unknown chain'') \<rparr>)))"]
    by (simp add: ex_world_sel ex_exc_def ex_response_def connect_error_message_def
         timeout_message_def status_message_def api_error_message_def au str_int_500 dict_get_def py_str_def)
qed

section \<open>Properties of the record loader\<close>

text \<open>
  C8. \<open>load_broadcast_json\<close> probes its two candidate locations in the order of the list
  and stops at the first that exists: it opens that file and returns what loading it
  gives. When no candidate exists it raises \<^verbatim>\<open>FileNotFoundError\<close> after probing all of
  them, and every candidate location occurs in the message.
\<close>

theorem load_broadcast_json_first_existing:
  "let candidates = map (path_resolve w) (possible_paths script_name chain_id)
   in (\<forall>p. find (path_exists w) candidates = Some p \<longrightarrow>
         load_broadcast_json self w chain_id script_name =
           (open_json w p,
            map FsExists (takeWhile (\<lambda>q. \<not> path_exists w q) candidates) @
            [FsExists p, Print (''Loading broadcast from: '' @ p), FsOpen p])) \<and>
      (find (path_exists w) candidates = None \<longrightarrow>
         load_broadcast_json self w chain_id script_name =
           (Inl (FileNotFoundError (not_found_message candidates script_name)),
            map FsExists candidates) \<and>
         (\<forall>c\<in>set candidates. sublist c (not_found_message candidates script_name)))"
proof -
  have "sublist c (not_found_message xs s)" if "c \<in> set xs" for c xs s
  proof -
    from sublist_py_join[OF that, of "'', ''"] obtain ps ss where "py_join '', '' xs = ps @ c @ ss"
      unfolding sublist_def by blast
    then have "not_found_message xs s =
        (''Broadcast file not found. Searched:\<newline>'' @ ps) @ c @
        (ss @ ''\<newline>\<newline>'' @ ''Make sure you've run: forge script script/'' @ s @ '' --broadcast'')"
      by (simp add: not_found_message_def)
    then show ?thesis by (metis sublist_appendI)
  qed
  then show ?thesis
    by (auto simp add: Let_def load_broadcast_json_def find_broadcast_char split: sum.split)
qed

theorem load_broadcast_json_first_existing_witness:
  "load_broadcast_json (ex_self None)
       (ex_fs_world (\<lambda>p. p = ''/link/contracts/broadcast/run-latest.json'')) 31337 ''DeployLocal.s.sol'' =
     (Inr ex_three_record,
      [FsExists ''/repo/contracts/broadcast/run-latest.json'',
       FsExists ''/link/contracts/broadcast/run-latest.json'',
       Print ''Loading broadcast from: /link/contracts/broadcast/run-latest.json'',
       FsOpen ''/link/contracts/broadcast/run-latest.json'']) \<and>
   load_broadcast_json (ex_self None) (ex_fs_world (\<lambda>p. False)) 31337 ''DeployLocal.s.sol'' =
     (Inl (FileNotFoundError (not_found_message
        [''/repo/contracts/broadcast/run-latest.json'', ''/link/contracts/broadcast/run-latest.json'']
        ''DeployLocal.s.sol'')),
      [FsExists ''/repo/contracts/broadcast/run-latest.json'',
       FsExists ''/link/contracts/broadcast/run-latest.json'']) \<and>
   sublist ''/repo/contracts/broadcast/run-latest.json''
     (not_found_message
        [''/repo/contracts/broadcast/run-latest.json'', ''/link/contracts/broadcast/run-latest.json'']
        ''DeployLocal.s.sol'') \<and>
   sublist ''/link/contracts/broadcast/run-latest.json''
     (not_found_message
        [''/repo/contracts/broadcast/run-latest.json'', ''/link/contracts/broadcast/run-latest.json'']
        ''DeployLocal.s.sol'')"
  using load_broadcast_json_first_existing[of "ex_fs_world (\<lambda>p. p = ''/link/contracts/broadcast/run-latest.json'')"
          "''DeployLocal.s.sol''" 31337 "ex_self None"]
        load_broadcast_json_first_existing[of "ex_fs_world (\<lambda>p. False)"
          "''DeployLocal.s.sol''" 31337 "ex_self None"]
  by (simp add: Let_def possible_paths_def ex_fs_world_def ex_world_def)

section \<open>Properties of the registrar\<close>




text \<open>
  C9. A \<^verbatim>\<open>default_deployer\<close> that is the empty string or \<^verbatim>\<open>null\<close> is treated as an absent
  one: \<open>register_contracts\<close> gives the same result, requests and output as with the
  configuration from which the field is removed, and no payload has \<^verbatim>\<open>deployed_by\<close>.
\<close>

theorem register_contracts_falsy_deployer:
  assumes "config self = Some cfg"
      and "default_deployer (network cfg) = Some (PyStr []) \<or>
           default_deployer (network cfg) = Some PyNone"
  shows "register_contracts self w k chain_id deployments =
           register_contracts
             (self\<lparr>config := Some (cfg\<lparr>network := (network cfg)\<lparr>default_deployer := None\<rparr>\<rparr>)\<rparr>)
             w k chain_id deployments \<and>
         filter (\<lambda>e. case e of HttpPost u h p \<Rightarrow> True | _ \<Rightarrow> False)
              (snd (register_contracts self w k chain_id deployments)) =
            map (\<lambda>dep. HttpPost (api_url self @ ''/api/v1/contracts'') (reg_headers self)
                   \<lparr> p_chain_id = chain_id, p_contract_mapping_id = mapping_id dep,
                     p_address = address dep, p_deployment_tx_hash = tx_hash dep,
                     p_deployed_by = None \<rparr>) deployments"
proof -
  have falsy: "\<not> truthy (dict_get (default_deployer (network cfg)))"
    using assms(2) by (auto simp: dict_get_def truthy_def)
  have same_payload: "make_payload chain_id (dict_get (default_deployer (network cfg))) =
                      make_payload chain_id (dict_get None)"
    using falsy by (auto simp: make_payload_def truthy_def dict_get_def)
  have "register_contracts self w k chain_id deployments =
           register_contracts
             (self\<lparr>config := Some (cfg\<lparr>network := (network cfg)\<lparr>default_deployer := None\<rparr>\<rparr>)\<rparr>)
             w k chain_id deployments"
    by (simp add: register_contracts_def assms(1) Let_def register_loop_config_irrelevant
          register_loop_same_payload[OF same_payload])
  moreover have "filter (\<lambda>e. case e of HttpPost u h p \<Rightarrow> True | _ \<Rightarrow> False)
              (snd (register_contracts self w k chain_id deployments)) =
            map (\<lambda>dep. HttpPost (api_url self @ ''/api/v1/contracts'') (reg_headers self)
                   \<lparr> p_chain_id = chain_id, p_contract_mapping_id = mapping_id dep,
                     p_address = address dep, p_deployment_tx_hash = tx_hash dep,
                     p_deployed_by = None \<rparr>) deployments"
    by (simp add: register_contracts_posts[OF assms(1)] make_payload_absent[OF falsy])
  ultimately show ?thesis by simp
qed

theorem register_contracts_falsy_deployer_witness:
  "register_contracts (ex_self (Some (PyStr []))) (ex_world ''localhost'') 0 31337
        [ex_deployment ''Token'' ''nexusToken'' 2 ''0xa2''] =
   register_contracts (ex_self None) (ex_world ''localhost'') 0 31337
        [ex_deployment ''Token'' ''nexusToken'' 2 ''0xa2''] \<and>
   filter (\<lambda>e. case e of HttpPost u h p \<Rightarrow> True | _ \<Rightarrow> False)
     (snd (register_contracts (ex_self (Some (PyStr []))) (ex_world ''localhost'') 0 31337
        [ex_deployment ''Token'' ''nexusToken'' 2 ''0xa2''])) =
     [HttpPost ''http://localhost:8080/api/v1/contracts'' [(''Content-Type'', ''application/json'')]
        \<lparr> p_chain_id = 31337, p_contract_mapping_id = 2, p_address = PyStr ''0xa2'',
          p_deployment_tx_hash = PyStr ''0xh0xa2'', p_deployed_by = None \<rparr>]"
proof -
  have h: "default_deployer (network (ex_config ''localhost'' (Some (PyStr [])))) = Some (PyStr []) \<or>
           default_deployer (network (ex_config ''localhost'' (Some (PyStr [])))) = Some PyNone"
    by (simp add: ex_config_def)
  have same: "(ex_self (Some (PyStr [])))\<lparr>config := Some ((ex_config ''localhost'' (Some (PyStr [])))
       \<lparr>network := (network (ex_config ''localhost'' (Some (PyStr []))))\<lparr>default_deployer := None\<rparr>\<rparr>)\<rparr> =
       ex_self None"
    by (simp add: ex_self_def ex_config_def)
  note t = register_contracts_falsy_deployer[OF ex_self_config h, of "ex_world ''localhost''" 0 31337
            "[ex_deployment ''Token'' ''nexusToken'' 2 ''0xa2'']", unfolded same]
  have posted: "map (\<lambda>dep. HttpPost (api_url (ex_self (Some (PyStr []))) @ ''/api/v1/contracts'')
                   (reg_headers (ex_self (Some (PyStr []))))
                   \<lparr> p_chain_id = 31337, p_contract_mapping_id = mapping_id dep,
                     p_address = address dep, p_deployment_tx_hash = tx_hash dep,
                     p_deployed_by = None \<rparr>) [ex_deployment ''Token'' ''nexusToken'' 2 ''0xa2''] =
     [HttpPost ''http://localhost:8080/api/v1/contracts'' [(''Content-Type'', ''application/json'')]
        \<lparr> p_chain_id = 31337, p_contract_mapping_id = 2, p_address = PyStr ''0xa2'',
          p_deployment_tx_hash = PyStr ''0xh0xa2'', p_deployed_by = None \<rparr>]"
    by (simp add: ex_self_url ex_self_headers ex_deployment_def)
  show ?thesis
    by (rule conjI, rule conjunct1[OF t], rule trans[OF conjunct2[OF t] posted])
qed

section \<open>Properties of a whole run\<close>

text \<open>
  C3. When the fetched configuration names a network other than \<^verbatim>\<open>localhost\<close> and no API
  key was given on the command line, \<open>main\<close> exits with code 1 right after reporting the
  configuration: the run consists of the banner, the GET, the configuration report and
  the two error lines. Nothing of the file system was probed or opened, whereas every
  call of \<open>load_broadcast_json\<close> probes at least one location, so the record loader was
  never called.
\<close>

theorem auth_gate_precedes_load:
  assumes "fetch_config (init (a_api_url a) (a_api_key a)) w (a_chain_id a) = (Inr cfg, self', ev)"
      and "network_name (network cfg) \<noteq> ''localhost''"
      and "a_api_key a = None"
  shows "main a w =
           (Exit 1,
            banner a @
            [HttpGet (api_url (init (a_api_url a) None) @ ''/api/v1/contracts/config/'' @
                        str_int (a_chain_id a)) (reg_headers (init (a_api_url a) None))] @
            config_report cfg @
            [Print ''\<newline>ERROR: API key required for non-localhost deployments'',
             Print ''       Use --api-key flag to provide authentication'']) \<and>
         (\<forall>p. FsExists p \<notin> set (snd (main a w)) \<and> FsOpen p \<notin> set (snd (main a w))) \<and>
         (\<forall>self2 c s. \<exists>p. FsExists p \<in> set (snd (load_broadcast_json self2 w c s)))"
proof -
  have ev: "ev = [HttpGet (api_url (init (a_api_url a) None) @ ''/api/v1/contracts/config/'' @
                        str_int (a_chain_id a)) (reg_headers (init (a_api_url a) None))]"
    using fetch_config_events[of "init (a_api_url a) (a_api_key a)" w "a_chain_id a"] assms(1,3)
    by simp
  have run: "main a w =
           (Exit 1,
            banner a @ ev @ config_report cfg @
            [Print ''\<newline>ERROR: API key required for non-localhost deployments'',
             Print ''       Use --api-key flag to provide authentication''])"
    using assms(2,3) by (simp add: main_fetched[OF assms(1)] main_after_fetch_def Let_def)
  have "\<forall>p. FsExists p \<notin> set (snd (main a w)) \<and> FsOpen p \<notin> set (snd (main a w))"
    unfolding run ev by (simp add: banner_def config_report_def Let_def)
  with run ev load_broadcast_json_probes show ?thesis by simp
qed

theorem auth_gate_precedes_load_witness:
  "main (ex_args False) (ex_world ''sepolia'') =
     (Exit 1,
      [Print ''============================================================'',
       Print ''Nexus Protocol - Post-Deployment Contract Registration'',
       Print ''============================================================'',
       Print ''\<newline>[1/4] Fetching config for chain 31337...'',
       HttpGet ''http://localhost:8080/api/v1/contracts/config/31337''
         [(''Content-Type'', ''application/json'')],
       Print ''   Network: Example (sepolia)'',
       Print ''   Default deployer: not configured'',
       Print ''   Contract mappings: 3'',
       Print ''\<newline>ERROR: API key required for non-localhost deployments'',
       Print ''       Use --api-key flag to provide authentication''])"
proof -
  have net: "network_name (network (ex_config ''sepolia'' None)) \<noteq> ''localhost''"
    by (simp add: ex_config_def)
  have key: "a_api_key (ex_args False) = None"
    by (simp add: ex_args_def)
  show ?thesis
    using auth_gate_precedes_load[OF ex_fetch net key]
    by (simp add: banner_def rule60_eval config_report_def ex_args_def ex_config_def
          ex_mappings_def str_int_31337 init_def rstrip_slash_def Let_def
          dict_get_default_def py_str_def digit_char_def)
qed

text \<open>
  C4. With the configuration loaded, \<open>register_contracts\<close> issues one POST per Deployment,
  in the order of the list and whatever the earlier answers were, and returns the number
  of answers that were \<^verbatim>\<open>ok\<close> and the number of the others (a response that is not
  \<^verbatim>\<open>ok\<close>, or an exception of the request); the \<open>i\<close>-th Deployment is answered as POST
  number \<open>k + i\<close>. The two counts add up to the number of Deployments. In a live run of
  \<open>main\<close> that reaches the registration, these POSTs are all the POSTs of the run, and
  the exit code is 1 exactly when the failure count is not zero. The witness is the
  scenario of three Deployments whose second POST is answered with status 500: the
  result is (2, 1), three POSTs are issued and \<open>main\<close> exits with code 1.
\<close>

theorem register_contracts_attempts_all:
  assumes "config self = Some cfg"
  shows "let url = api_url self @ ''/api/v1/contracts'';
             body = make_payload chain_id (dict_get (default_deployer (network cfg)));
             succeeded = (\<lambda>(i, dep). case http_post w i url (reg_headers self) (body dep) of
                                        Responds resp \<Rightarrow> ok resp | Raises e \<Rightarrow> False);
             success_count = length (filter succeeded (enumerate k deployments));
             failure_count = length (filter (\<lambda>x. \<not> succeeded x) (enumerate k deployments));
             posts = map (\<lambda>dep. HttpPost url (reg_headers self) (body dep)) deployments
         in fst (register_contracts self w k chain_id deployments) =
              Inr (success_count, failure_count) \<and>
            success_count + failure_count = length deployments \<and>
            filter (\<lambda>e. case e of HttpPost u h p \<Rightarrow> True | _ \<Rightarrow> False)
              (snd (register_contracts self w k chain_id deployments)) = posts \<and>
            (\<forall>a ev1 b ev2 ev3.
               fetch_config (init (a_api_url a) (a_api_key a)) w (a_chain_id a) = (Inr cfg, self, ev1) \<and>
               (network_name (network cfg) = ''localhost'' \<or>
                (a_api_key a \<noteq> None \<and> a_api_key a \<noteq> Some [])) \<and>
               load_broadcast_json self w (a_chain_id a) (a_script a) = (Inr b, ev2) \<and>
               extract_deployments self b = (Inr deployments, ev3) \<and>
               deployments \<noteq> [] \<and> \<not> a_dry_run a \<and> chain_id = a_chain_id a \<and> k = 0 \<longrightarrow>
               fst (main a w) = (if failure_count = 0 then Exit 0 else Exit 1) \<and>
               filter (\<lambda>e. case e of HttpPost u h p \<Rightarrow> True | _ \<Rightarrow> False) (snd (main a w)) = posts)"
proof -
  let ?url = "api_url self @ ''/api/v1/contracts''"
  let ?body = "make_payload chain_id (dict_get (default_deployer (network cfg)))"
  let ?succeeded = "\<lambda>(i, dep). case http_post w i ?url (reg_headers self) (?body dep) of
                                        Responds resp \<Rightarrow> ok resp | Raises e \<Rightarrow> False"
  let ?s = "length (filter ?succeeded (enumerate k deployments))"
  let ?f = "length (filter (\<lambda>x. \<not> ?succeeded x) (enumerate k deployments))"
  let ?posts = "map (\<lambda>dep. HttpPost ?url (reg_headers self) (?body dep)) deployments"
  let ?post = "\<lambda>e. case e of HttpPost u h p \<Rightarrow> True | _ \<Rightarrow> False"
  have same: "(\<lambda>x. \<not> ?succeeded x) =
      (\<lambda>(i, dep). \<not> (case http_post w i ?url (reg_headers self) (?body dep) of
                                        Responds resp \<Rightarrow> ok resp | Raises e \<Rightarrow> False))"
    by (simp add: fun_eq_iff)
  have counts: "fst (register_contracts self w k chain_id deployments) = Inr (?s, ?f)"
    unfolding same by (rule register_contracts_counts[OF assms])
  have total: "?s + ?f = length deployments"
    using sum_length_filter_compl[of ?succeeded "enumerate k deployments"] by simp
  have posts: "filter ?post (snd (register_contracts self w k chain_id deployments)) = ?posts"
    by (rule register_contracts_posts[OF assms])
  have run: "fst (main a w) = (if ?f = 0 then Exit 0 else Exit 1) \<and>
             filter ?post (snd (main a w)) = ?posts"
    if fetch: "fetch_config (init (a_api_url a) (a_api_key a)) w (a_chain_id a) = (Inr cfg, self, ev1)"
      and gate: "network_name (network cfg) = ''localhost'' \<or>
                 (a_api_key a \<noteq> None \<and> a_api_key a \<noteq> Some [])"
      and load: "load_broadcast_json self w (a_chain_id a) (a_script a) = (Inr b, ev2)"
      and extr: "extract_deployments self b = (Inr deployments, ev3)"
      and nonempty: "deployments \<noteq> []" and live: "\<not> a_dry_run a"
      and chain: "chain_id = a_chain_id a" and k: "k = 0"
    for a ev1 b ev2 ev3
  proof -
    obtain ev4 where reg: "register_contracts self w 0 (a_chain_id a) deployments = (Inr (?s, ?f), ev4)"
      using counts unfolding chain k by (metis prod.collapse)
    have ev4: "filter ?post ev4 = ?posts"
      using posts reg unfolding chain k by simp
    have ev1: "filter ?post ev1 = []"
      using fetch_config_no_post[of "init (a_api_url a) (a_api_key a)" w "a_chain_id a"] fetch
      by simp
    have ev2: "filter ?post ev2 = []"
      using load_broadcast_json_no_post[of self w "a_chain_id a" "a_script a"] load by simp
    have ev3: "filter ?post ev3 = []"
      using extract_deployments_no_post[of self b] extr by simp
    show ?thesis
      unfolding main_loaded[OF fetch gate load]
        main_after_load_live[OF extr nonempty live reg]
      by (simp add: ev1 ev2 ev3 ev4 reports_no_post)
  qed
  show ?thesis
    unfolding Let_def using counts total posts run by blast
qed

theorem register_contracts_attempts_all_witness:
  "fst (register_contracts (ex_fetched ''localhost'') (ex_world ''localhost'') 0 31337
          ex_three_deployments) = Inr (2, 1) \<and>
   filter (\<lambda>e. case e of HttpPost u h p \<Rightarrow> True | _ \<Rightarrow> False)
     (snd (register_contracts (ex_fetched ''localhost'') (ex_world ''localhost'') 0 31337
             ex_three_deployments)) =
     [ex_post 1 ''0xa1'', ex_post 2 ''0xa2'', ex_post 3 ''0xa3''] \<and>
   fst (main (ex_args False) (ex_world ''localhost'')) = Exit 1 \<and>
   filter (\<lambda>e. case e of HttpPost u h p \<Rightarrow> True | _ \<Rightarrow> False)
     (snd (main (ex_args False) (ex_world ''localhost''))) =
     [ex_post 1 ''0xa1'', ex_post 2 ''0xa2'', ex_post 3 ''0xa3'']"
proof -
  note t = register_contracts_attempts_all[OF ex_fetched_config,
      of "''localhost''" 31337 "ex_world ''localhost''" 0 ex_three_deployments,
      unfolded Let_def ex_posts ex_counts]
  have gate: "network_name (network (ex_config ''localhost'' None)) = ''localhost'' \<or>
              (a_api_key (ex_args False) \<noteq> None \<and> a_api_key (ex_args False) \<noteq> Some [])"
    by (simp add: ex_config_def)
  have rest: "ex_three_deployments \<noteq> [] \<and> \<not> a_dry_run (ex_args False) \<and>
              31337 = a_chain_id (ex_args False) \<and> (0::nat) = 0"
    by (simp add: ex_three_deployments_def ex_args_def)
  have run: "fst (main (ex_args False) (ex_world ''localhost'')) = (if (1::nat) = 0 then Exit 0 else Exit 1) \<and>
     filter (\<lambda>e. case e of HttpPost u h p \<Rightarrow> True | _ \<Rightarrow> False)
       (snd (main (ex_args False) (ex_world ''localhost''))) =
       [ex_post 1 ''0xa1'', ex_post 2 ''0xa2'', ex_post 3 ''0xa3'']"
    using t ex_fetch_run[of False "''localhost''"]
      ex_load[of "ex_fetched ''localhost''" "''localhost''" "a_chain_id (ex_args False)" "a_script (ex_args False)"]
      ex_extract[of "''localhost''"] gate rest
    by blast
  from t run show ?thesis by simp
qed



end
